theory Spec2Isabelle
  imports Complex_Main "HOL-Library.AList"
begin

section \<open>Conventions of the embedding\<close>

text \<open>
  The recommender is Python. Its \<open>float\<close>s are embedded as \<^typ>\<open>real\<close> (exact
  arithmetic: rounding error, infinities and overflow of the binary doubles are outside
  the embedding), its \<open>int\<close>s as \<^typ>\<open>int\<close>, its strings as \<^typ>\<open>string\<close>. The
  \<open>Literal[...]\<close> types of \<open>nutrition_engine.py\<close> are datatypes. A \<open>dict\<close> is an
  association list in insertion order: \<open>d.get(k, v)\<close> is \<open>dict_get d k v\<close> and the
  assignment \<open>d[k] = v\<close> is \<^const>\<open>AList.update\<close>, which overwrites in place or appends
  at the end, as Python does. Exceptions are values of \<open>error\<close>. A method that mutates
  the bandit returns the store it leaves behind together with its outcome, also when the
  outcome is an exception: what Python has mutated before a raise stays mutated.
\<close>

datatype error = ZeroDivisionError | LinAlgError | ValueError | FileNotFoundError

definition dict_get :: "('k \<times> 'v) list \<Rightarrow> 'k \<Rightarrow> 'v \<Rightarrow> 'v" where
  "dict_get m k dflt = (case map_of m k of None \<Rightarrow> dflt | Some v \<Rightarrow> v)"

section \<open>recommender/nutrition\_engine.py\<close>

datatype Gender = Male | Female

datatype ActivityLevel = Sedentary | Light | Moderate | VeryActive | ExtraActive

datatype Goal = WeightLoss | Maintenance | MuscleGain

datatype DietaryPref = Veg | NonVeg

record UserProfile =
  user_id :: string
  height_cm :: real
  weight_kg :: real
  age :: int
  gender :: Gender
  activity_level :: ActivityLevel
  goal :: Goal
  target_calories :: "real option"
  target_protein_g :: "real option"
  dietary_pref :: DietaryPref
  allergies :: "string list option"

text \<open>
  The property \<open>bmi\<close>: \<open>h_m = height_cm / 100; weight_kg / (h_m ** 2)\<close>. Python raises
  ZeroDivisionError on a float division by zero.
\<close>

definition bmi :: "UserProfile \<Rightarrow> error + real" where
  "bmi p =
     (let h_m = height_cm p / 100
      in if h_m ^ 2 = 0 then Inl ZeroDivisionError else Inr (weight_kg p / h_m ^ 2))"

record MacroTargets =
  calories :: real
  protein_g :: real
  carbs_g :: real
  fats_g :: real

fun ACTIVITY_MULTIPLIERS :: "ActivityLevel \<Rightarrow> real" where
  "ACTIVITY_MULTIPLIERS Sedentary = 1.2"
| "ACTIVITY_MULTIPLIERS Light = 1.375"
| "ACTIVITY_MULTIPLIERS Moderate = 1.55"
| "ACTIVITY_MULTIPLIERS VeryActive = 1.725"
| "ACTIVITY_MULTIPLIERS ExtraActive = 1.9"

definition compute_bmr :: "UserProfile \<Rightarrow> real" where
  "compute_bmr p =
     (let w = weight_kg p; h = height_cm p; a = real_of_int (age p)
      in if gender p = Male then 10 * w + 6.25 * h - 5 * a + 5
         else 10 * w + 6.25 * h - 5 * a - 161)"

definition compute_tdee :: "UserProfile \<Rightarrow> real" where
  "compute_tdee p =
     (let bmr = compute_bmr p; mult = ACTIVITY_MULTIPLIERS (activity_level p)
      in bmr * mult)"

definition adjust_for_goal :: "real \<Rightarrow> Goal \<Rightarrow> real" where
  "adjust_for_goal tdee g =
     (if g = WeightLoss then max 1200 (tdee - 400)
      else if g = MuscleGain then tdee + 300
      else tdee)"

text \<open>
  Python's \<open>round(x, 1)\<close>: the nearest multiple of one tenth, a tie going to the even
  neighbour.
\<close>

definition round_half_even :: "real \<Rightarrow> int" where
  "round_half_even y =
     (let f = \<lfloor>y\<rfloor>; r = y - of_int f
      in if r < 1 / 2 then f else if 1 / 2 < r then f + 1
         else if even f then f else f + 1)"

definition round1 :: "real \<Rightarrow> real" where
  "round1 x = of_int (round_half_even (x * 10)) / 10"

definition compute_macro_targets :: "UserProfile \<Rightarrow> MacroTargets" where
  "compute_macro_targets p =
     (let tdee = compute_tdee p;
          daily_cals = adjust_for_goal tdee (goal p);
          daily_cals = (case target_calories p of Some c \<Rightarrow> c | None \<Rightarrow> daily_cals);
          protein = (case target_protein_g p of Some g \<Rightarrow> g | None \<Rightarrow> 1.8 * weight_kg p);
          fats = 0.8 * weight_kg p;
          protein_cal = 4 * protein;
          fat_cal = 9 * fats;
          remaining_cal = max 0 (daily_cals - protein_cal - fat_cal);
          carbs = remaining_cal / 4
      in \<lparr>calories = round1 daily_cals, protein_g = round1 protein,
          carbs_g = round1 carbs, fats_g = round1 fats\<rparr>)"

definition MEAL_SHARES :: "(string \<times> real) list" where
  "MEAL_SHARES = [(''breakfast'', 0.25), (''lunch'', 0.35), (''dinner'', 0.30), (''snack'', 0.10)]"

definition get_meal_macro_targets :: "MacroTargets \<Rightarrow> string \<Rightarrow> MacroTargets" where
  "get_meal_macro_targets daily meal_type =
     (let s = dict_get MEAL_SHARES meal_type 0.25
      in \<lparr>calories = calories daily * s, protein_g = protein_g daily * s,
          carbs_g = carbs_g daily * s, fats_g = fats_g daily * s\<rparr>)"

text \<open>The profile of the worked scenario of the specification.\<close>

definition scenario_profile :: UserProfile where
  "scenario_profile =
     \<lparr>user_id = ''u1'', height_cm = 175, weight_kg = 72, age = 25, gender = Male,
      activity_level = Moderate, goal = Maintenance, target_calories = None,
      target_protein_g = None, dietary_pref = Veg, allergies = None\<rparr>"

section \<open>numpy, as far as the bandit uses it\<close>

text \<open>
  A one-dimensional array is a list, a two-dimensional array a list of rows. The
  operations raise ValueError on operands whose shapes do not fit. The library routine
  \<open>numpy.linalg.inv\<close> is not code of this repository: every function that reaches it
  takes it as the parameter \<open>np_inv\<close>, with \<open>None\<close> for its LinAlgError, and the theorems
  hold for whatever it returns. \<open>numpy.sqrt\<close> of a negative number is NaN; a score that
  is NaN is \<open>None\<close>.
\<close>

type_synonym linalg_inv = "real list list \<Rightarrow> real list list option"

definition np_eye :: "nat \<Rightarrow> real list list" where
  "np_eye n = map (\<lambda>i. map (\<lambda>j. if i = j then 1 else 0) [0..<n]) [0..<n]"

definition np_zeros :: "nat \<Rightarrow> real list" where
  "np_zeros n = replicate n 0"

definition np_dot :: "real list \<Rightarrow> real list \<Rightarrow> error + real" where
  "np_dot u v =
     (if length u = length v then Inr (sum_list (map2 (*) u v)) else Inl ValueError)"

definition np_matvec :: "real list list \<Rightarrow> real list \<Rightarrow> error + real list" where
  "np_matvec M v =
     (if list_all (\<lambda>row. length row = length v) M
      then Inr (map (\<lambda>row. sum_list (map2 (*) row v)) M)
      else Inl ValueError)"

definition np_vecmat :: "real list \<Rightarrow> real list list \<Rightarrow> error + real list" where
  "np_vecmat v M =
     (let ncols = (case M of [] \<Rightarrow> 0 | row # _ \<Rightarrow> length row)
      in if length M = length v \<and> list_all (\<lambda>row. length row = ncols) M
         then Inr (map (\<lambda>j. sum_list (map2 (\<lambda>vi row. vi * row ! j) v M)) [0..<ncols])
         else Inl ValueError)"

definition np_outer :: "real list \<Rightarrow> real list \<Rightarrow> real list list" where
  "np_outer u v = map (\<lambda>ui. map (\<lambda>vj. ui * vj) v) u"

definition np_iadd_mat :: "real list list \<Rightarrow> real list list \<Rightarrow> error + real list list" where
  "np_iadd_mat M N =
     (if map length M = map length N then Inr (map2 (map2 (+)) M N) else Inl ValueError)"

definition np_iadd_vec :: "real list \<Rightarrow> real list \<Rightarrow> error + real list" where
  "np_iadd_vec u v =
     (if length u = length v then Inr (map2 (+) u v) else Inl ValueError)"

section \<open>recommender/bandit.py\<close>

text \<open>A row of the food table, with the columns the recommender reads.\<close>

record Dish =
  Dish_Name :: string
  Category :: string
  Veg_NonVeg :: string
  Calories_kcal :: real
  Protein_gm :: real
  Carbs_gm :: real
  Fats_gm :: real
  Price_INR :: "real option"

record ArmState =
  arm_A :: "real list list"
  arm_b :: "real list"

definition create :: "nat \<Rightarrow> ArmState" where
  "create n = \<lparr>arm_A = np_eye n, arm_b = np_zeros n\<rparr>"

definition to_serializable :: "ArmState \<Rightarrow> real list list \<times> real list" where
  "to_serializable arm = (arm_A arm, arm_b arm)"

definition from_serializable :: "real list list \<times> real list \<Rightarrow> ArmState" where
  "from_serializable data = \<lparr>arm_A = fst data, arm_b = snd data\<rparr>"

record LinUCBBandit =
  bandit_d :: nat
  alpha :: real
  state :: "(string \<times> (string \<times> ArmState) list) list"
  likes :: "((string \<times> string) \<times> int) list"
  dislikes :: "((string \<times> string) \<times> int) list"

text \<open>The constructor \<open>__init__\<close>.\<close>

definition init_bandit :: "nat \<Rightarrow> real \<Rightarrow> LinUCBBandit" where
  "init_bandit n a = \<lparr>bandit_d = n, alpha = a, state = [], likes = [], dislikes = []\<rparr>"

text \<open>
  \<open>_get_user_arms\<close> gives the user an empty dictionary of arms when there is none; the
  store after the call is \<open>get_user_arms\<close>, the dictionary it returns \<open>user_arms\<close>. The
  dictionary and the arms in it are shared with the store, so a write to either is a
  write to the store: \<open>set_arm\<close>.
\<close>

definition get_user_arms :: "LinUCBBandit \<Rightarrow> string \<Rightarrow> LinUCBBandit" where
  "get_user_arms s uid =
     (if map_of (state s) uid = None then s\<lparr>state := AList.update uid [] (state s)\<rparr> else s)"

definition user_arms :: "LinUCBBandit \<Rightarrow> string \<Rightarrow> (string \<times> ArmState) list" where
  "user_arms s uid = dict_get (state s) uid []"

definition set_arm :: "LinUCBBandit \<Rightarrow> string \<Rightarrow> string \<Rightarrow> ArmState \<Rightarrow> LinUCBBandit" where
  "set_arm s uid dish_id arm =
     s\<lparr>state := AList.update uid (AList.update dish_id arm (user_arms s uid)) (state s)\<rparr>"

text \<open>\<open>if dish_id not in user_arms: user_arms[dish_id] = ArmState.create(self.d)\<close>, then the arm.\<close>

definition arm_for :: "LinUCBBandit \<Rightarrow> string \<Rightarrow> string \<Rightarrow> ArmState \<times> LinUCBBandit" where
  "arm_for s uid dish_id =
     (case map_of (user_arms s uid) dish_id of
        Some arm \<Rightarrow> (arm, s)
      | None \<Rightarrow> (create (bandit_d s), set_arm s uid dish_id (create (bandit_d s))))"

definition build_context ::
  "UserProfile \<Rightarrow> MacroTargets \<Rightarrow> string \<Rightarrow> Dish \<Rightarrow> error + real list" where
  "build_context p daily_targets meal_type dish_row =
     (case bmi p of
        Inl e \<Rightarrow> Inl e
      | Inr bm \<Rightarrow>
          (let bmi_norm = min (max ((bm - 15) / 20) 0) 1;
               gender_flag = (if gender p = Male then 1 else 0);
               meal_types = [''breakfast'', ''lunch'', ''dinner'', ''snack''];
               meal_onehot = map (\<lambda>mt. if meal_type = mt then 1 else 0) meal_types;
               cal = Calories_kcal dish_row;
               prot = Protein_gm dish_row;
               carbs = Carbs_gm dish_row;
               fats = Fats_gm dish_row;
               cal_frac = cal / max 1 (calories daily_targets);
               prot_frac = prot / max 1 (protein_g daily_targets);
               carb_frac = carbs / max 1 (carbs_g daily_targets);
               fat_frac = fats / max 1 (fats_g daily_targets);
               bias = 1
           in Inr ([bias, bmi_norm, gender_flag] @ meal_onehot
                   @ [cal_frac, prot_frac, carb_frac, fat_frac])))"

definition rel_err :: "real \<Rightarrow> real \<Rightarrow> real" where
  "rel_err v t = (if t \<le> 0 then 0 else \<bar>v - t\<bar> / t)"

definition compute_macro_fit :: "MacroTargets \<Rightarrow> real \<Rightarrow> real \<Rightarrow> real \<Rightarrow> real \<Rightarrow> real" where
  "compute_macro_fit meal_targets cal prot carbs fats =
     (let errs = [rel_err cal (calories meal_targets), rel_err prot (protein_g meal_targets),
                  rel_err carbs (carbs_g meal_targets), rel_err fats (fats_g meal_targets)];
          mean_err = sum_list errs / real (length errs)
      in max 0 (1 - mean_err))"

text \<open>
  The LinUCB score of one arm: \<open>A_inv = inv(A); theta = A_inv @ b; mean = theta.T @ x;
  var = sqrt(x.T @ A_inv @ x); mean + alpha * var\<close>.
\<close>

definition linucb_score :: "linalg_inv \<Rightarrow> real \<Rightarrow> ArmState \<Rightarrow> real list \<Rightarrow> error + real option" where
  "linucb_score np_inv a arm x =
     (case np_inv (arm_A arm) of
        None \<Rightarrow> Inl LinAlgError
      | Some A_inv \<Rightarrow>
          (case np_matvec A_inv (arm_b arm) of
             Inl e \<Rightarrow> Inl e
           | Inr theta \<Rightarrow>
               (case np_dot theta x of
                  Inl e \<Rightarrow> Inl e
                | Inr mean \<Rightarrow>
                    (case np_vecmat x A_inv of
                       Inl e \<Rightarrow> Inl e
                     | Inr xA \<Rightarrow>
                         (case np_dot xA x of
                            Inl e \<Rightarrow> Inl e
                          | Inr q \<Rightarrow> Inr (if q < 0 then None else Some (mean + a * sqrt q)))))))"

text \<open>The score of a candidate, with the bonus of 0.05 for a dish the user has not rated.\<close>

definition candidate_score ::
  "linalg_inv \<Rightarrow> LinUCBBandit \<Rightarrow> string \<Rightarrow> string \<Rightarrow> ArmState \<Rightarrow> real list \<Rightarrow> error + real option" where
  "candidate_score np_inv s uid dish_id arm x =
     (case linucb_score np_inv (alpha s) arm x of
        Inl e \<Rightarrow> Inl e
      | Inr score \<Rightarrow>
          (let seen = dict_get (likes s) (uid, dish_id) 0 + dict_get (dislikes s) (uid, dish_id) 0
           in Inr (if seen = 0 then map_option (\<lambda>v. v + 0.05) score else score)))"

text \<open>
  The scoring loop of \<open>select_dish\<close> over the rows that passed the filter. A NaN score
  is not greater than the best score, so its row is passed over.
\<close>

fun score_loop ::
  "linalg_inv \<Rightarrow> UserProfile \<Rightarrow> MacroTargets \<Rightarrow> string \<Rightarrow> Dish list \<Rightarrow> real \<Rightarrow> Dish option
     \<Rightarrow> LinUCBBandit \<Rightarrow> (error + Dish option) \<times> LinUCBBandit" where
  "score_loop np_inv p daily_targets meal_type [] best_score best_row s = (Inr best_row, s)"
| "score_loop np_inv p daily_targets meal_type (row # rows) best_score best_row s =
     (case build_context p daily_targets meal_type row of
        Inl e \<Rightarrow> (Inl e, s)
      | Inr x \<Rightarrow>
          (case arm_for s (user_id p) (Dish_Name row) of
             (arm, s1) \<Rightarrow>
               (case candidate_score np_inv s1 (user_id p) (Dish_Name row) arm x of
                  Inl e \<Rightarrow> (Inl e, s1)
                | Inr None \<Rightarrow> score_loop np_inv p daily_targets meal_type rows best_score best_row s1
                | Inr (Some score) \<Rightarrow>
                    (if score > best_score
                     then score_loop np_inv p daily_targets meal_type rows score (Some row) s1
                     else score_loop np_inv p daily_targets meal_type rows best_score best_row s1))))"

definition eligible :: "LinUCBBandit \<Rightarrow> string \<Rightarrow> (string \<times> int) list \<Rightarrow> int \<Rightarrow> Dish \<Rightarrow> bool" where
  "eligible s uid weekly_counts max_per_week row =
     (\<not> dict_get (dislikes s) (uid, Dish_Name row) 0 > 0
      \<and> \<not> dict_get weekly_counts (Dish_Name row) 0 \<ge> max_per_week)"

definition select_dish ::
  "linalg_inv \<Rightarrow> LinUCBBandit \<Rightarrow> UserProfile \<Rightarrow> MacroTargets \<Rightarrow> string \<Rightarrow> Dish list
     \<Rightarrow> (string \<times> int) list \<Rightarrow> int \<Rightarrow> (error + Dish option) \<times> LinUCBBandit" where
  "select_dish np_inv s p daily_targets meal_type candidate_df weekly_counts max_per_week =
     (let s1 = get_user_arms s (user_id p);
          filtered_rows = filter (eligible s1 (user_id p) weekly_counts max_per_week) candidate_df
      in if filtered_rows = [] then (Inr None, s1)
         else score_loop np_inv p daily_targets meal_type filtered_rows (- 1000000000) None s1)"

text \<open>The reward of \<open>update\<close>: \<open>clamp(0.7 * fb_score + 0.3 * macro_fit, 0, 1)\<close>.\<close>

definition fb_score :: "int \<Rightarrow> real" where
  "fb_score feedback = (if feedback > 0 then 1 else if feedback < 0 then 0 else 0.5)"

definition update_reward :: "MacroTargets \<Rightarrow> string \<Rightarrow> Dish \<Rightarrow> int \<Rightarrow> real" where
  "update_reward daily_targets meal_type dish_row feedback =
     (let meal_targets = get_meal_macro_targets daily_targets meal_type;
          macro_fit = compute_macro_fit meal_targets (Calories_kcal dish_row)
                        (Protein_gm dish_row) (Carbs_gm dish_row) (Fats_gm dish_row);
          reward = 0.7 * fb_score feedback + 0.3 * macro_fit
      in max 0 (min 1 reward))"

definition count_feedback :: "LinUCBBandit \<Rightarrow> string \<times> string \<Rightarrow> int \<Rightarrow> LinUCBBandit" where
  "count_feedback s key feedback =
     (if feedback > 0 then s\<lparr>likes := AList.update key (dict_get (likes s) key 0 + 1) (likes s)\<rparr>
      else if feedback < 0
      then s\<lparr>dislikes := AList.update key (dict_get (dislikes s) key 0 + 1) (dislikes s)\<rparr>
      else s)"

definition update ::
  "LinUCBBandit \<Rightarrow> UserProfile \<Rightarrow> MacroTargets \<Rightarrow> string \<Rightarrow> Dish \<Rightarrow> int
     \<Rightarrow> (error + unit) \<times> LinUCBBandit" where
  "update s p daily_targets meal_type dish_row feedback =
     (let dish_id = Dish_Name dish_row;
          key = (user_id p, dish_id);
          s1 = get_user_arms s (user_id p)
      in case arm_for s1 (user_id p) dish_id of
           (arm, s2) \<Rightarrow>
             (let s3 = count_feedback s2 key feedback;
                  reward = update_reward daily_targets meal_type dish_row feedback
              in case build_context p daily_targets meal_type dish_row of
                   Inl e \<Rightarrow> (Inl e, s3)
                 | Inr x \<Rightarrow>
                     (case np_iadd_mat (arm_A arm) (np_outer x x) of
                        Inl e \<Rightarrow> (Inl e, s3)
                      | Inr A' \<Rightarrow>
                          (let s4 = set_arm s3 (user_id p) dish_id (arm\<lparr>arm_A := A'\<rparr>)
                           in case np_iadd_vec (arm_b arm) (map ((*) reward) x) of
                                Inl e \<Rightarrow> (Inl e, s4)
                              | Inr b' \<Rightarrow>
                                  (Inr (), set_arm s4 (user_id p) dish_id
                                             \<lparr>arm_A = A', arm_b = b'\<rparr>)))))"

text \<open>
  The calls a client can make on one store, and the store they leave behind, whether
  they return or raise.
\<close>

datatype bandit_call =
  Select UserProfile MacroTargets string "Dish list" "(string \<times> int) list" int
| Update UserProfile MacroTargets string Dish int

fun exec :: "linalg_inv \<Rightarrow> LinUCBBandit \<Rightarrow> bandit_call \<Rightarrow> LinUCBBandit" where
  "exec np_inv s (Select p dt mt cands wc mpw) = snd (select_dish np_inv s p dt mt cands wc mpw)"
| "exec np_inv s (Update p dt mt row fb) = snd (update s p dt mt row fb)"

definition exec_all :: "linalg_inv \<Rightarrow> LinUCBBandit \<Rightarrow> bandit_call list \<Rightarrow> LinUCBBandit" where
  "exec_all np_inv s calls = foldl (exec np_inv) s calls"

text \<open>A call is neutral for a user and a dish unless it is an update of that pair with
  a feedback other than 0.\<close>

fun neutral_for :: "string \<Rightarrow> string \<Rightarrow> bandit_call \<Rightarrow> bool" where
  "neutral_for uid dish (Update p dt mt row fb) = (user_id p \<noteq> uid \<or> Dish_Name row \<noteq> dish \<or> fb = 0)"
| "neutral_for uid dish (Select p dt mt cands wc mpw) = True"

subsection \<open>Persistence\<close>

text \<open>
  \<open>save\<close> writes the JSON value \<open>serialize\<close> builds, \<open>load\<close> reads it back; the JSON text
  in between is the library's and carries the value unchanged. A file system maps a path
  to the value stored there. A dictionary comprehension assigns its items one after the
  other.
\<close>

record BanditJson =
  json_d :: nat
  json_alpha :: real
  json_state :: "(string \<times> (string \<times> (real list list \<times> real list)) list) list"
  json_likes :: "(string \<times> int) list"
  json_dislikes :: "(string \<times> int) list"

definition dict_of_items :: "('k \<times> 'v) list \<Rightarrow> ('k \<times> 'v) list" where
  "dict_of_items items = foldl (\<lambda>acc kv. AList.update (fst kv) (snd kv) acc) [] items"

definition counter_key :: "string \<times> string \<Rightarrow> string" where
  "counter_key ud = fst ud @ ''||'' @ snd ud"

definition serialize :: "LinUCBBandit \<Rightarrow> BanditJson" where
  "serialize s =
     \<lparr>json_d = bandit_d s, json_alpha = alpha s,
      json_state =
        dict_of_items (map (\<lambda>ua. (fst ua,
            dict_of_items (map (\<lambda>da. (fst da, to_serializable (snd da))) (snd ua)))) (state s)),
      json_likes = dict_of_items (map (\<lambda>kc. (counter_key (fst kc), snd kc)) (likes s)),
      json_dislikes = dict_of_items (map (\<lambda>kc. (counter_key (fst kc), snd kc)) (dislikes s))\<rparr>"

definition save ::
  "LinUCBBandit \<Rightarrow> string \<Rightarrow> (string \<Rightarrow> BanditJson option) \<Rightarrow> (string \<Rightarrow> BanditJson option)" where
  "save s path fs = fs(path \<mapsto> serialize s)"

text \<open>\<open>k.split("||", 1)\<close>: the parts before and after the first \<open>||\<close>, if there is one.\<close>

fun split_sep :: "string \<Rightarrow> (string \<times> string) option" where
  "split_sep (c1 # c2 # cs) =
     (if c1 = CHR ''|'' \<and> c2 = CHR ''|'' then Some ([], cs)
      else (case split_sep (c2 # cs) of None \<Rightarrow> None | Some (u, d) \<Rightarrow> Some (c1 # u, d)))"
| "split_sep cs = None"

text \<open>
  \<open>for k, v in data[...].items(): u, d = k.split("||", 1); counts[(u, d)] = v\<close>. A key
  without the separator cannot be unpacked: ValueError.
\<close>

fun load_counts ::
  "(string \<times> int) list \<Rightarrow> ((string \<times> string) \<times> int) list \<Rightarrow> error + ((string \<times> string) \<times> int) list" where
  "load_counts [] acc = Inr acc"
| "load_counts (kv # kvs) acc =
     (case split_sep (fst kv) of
        None \<Rightarrow> Inl ValueError
      | Some ud \<Rightarrow> load_counts kvs (AList.update ud (snd kv) acc))"

definition load_state ::
  "(string \<times> (string \<times> (real list list \<times> real list)) list) list
     \<Rightarrow> (string \<times> (string \<times> ArmState) list) list" where
  "load_state items =
     foldl (\<lambda>acc ua. AList.update (fst ua)
              (dict_of_items (map (\<lambda>da. (fst da, from_serializable (snd da))) (snd ua))) acc)
       [] items"

definition deserialize :: "BanditJson \<Rightarrow> error + LinUCBBandit" where
  "deserialize data =
     (let bandit = init_bandit (json_d data) (json_alpha data);
          bandit = bandit\<lparr>state := load_state (json_state data)\<rparr>
      in case load_counts (json_likes data) [] of
           Inl e \<Rightarrow> Inl e
         | Inr ls \<Rightarrow>
             (case load_counts (json_dislikes data) [] of
                Inl e \<Rightarrow> Inl e
              | Inr ds \<Rightarrow> Inr (bandit\<lparr>likes := ls, dislikes := ds\<rparr>)))"

definition load :: "string \<Rightarrow> (string \<Rightarrow> BanditJson option) \<Rightarrow> error + LinUCBBandit" where
  "load path fs = (case fs path of None \<Rightarrow> Inl FileNotFoundError | Some data \<Rightarrow> deserialize data)"

text \<open>
  A user id is safe for the counter keys when \<open>||\<close> occurs neither in it nor across its
  end, so that the first \<open>||\<close> of a key is the separator. The association lists of a store
  are dictionaries when no key stands twice.
\<close>

fun pipe_safe :: "string \<Rightarrow> bool" where
  "pipe_safe (c1 # c2 # cs) = (\<not> (c1 = CHR ''|'' \<and> c2 = CHR ''|'') \<and> pipe_safe (c2 # cs))"
| "pipe_safe [c] = (c \<noteq> CHR ''|'')"
| "pipe_safe [] = True"

definition wf_dicts :: "LinUCBBandit \<Rightarrow> bool" where
  "wf_dicts s =
     (distinct (map fst (state s)) \<and> list_all (\<lambda>ua. distinct (map fst (snd ua))) (state s)
      \<and> distinct (map fst (likes s)) \<and> distinct (map fst (dislikes s)))"

definition pipe_safe_keys :: "LinUCBBandit \<Rightarrow> bool" where
  "pipe_safe_keys s = list_all (\<lambda>kc. pipe_safe (fst (fst kc))) (likes s @ dislikes s)"

section \<open>recommender/meal\_recommender.py\<close>

definition MEAL_ORDER :: "string list" where
  "MEAL_ORDER = [''breakfast'', ''lunch'', ''dinner'', ''snack'']"

text \<open>\<open>str.lower\<close> on ASCII letters, and the substring test \<open>a in name\<close>.\<close>

definition lower_char :: "char \<Rightarrow> char" where
  "lower_char c =
     (let n = (of_char c :: nat) in if 65 \<le> n \<and> n \<le> 90 then char_of (n + 32) else c)"

definition lower :: "string \<Rightarrow> string" where
  "lower s = map lower_char s"

fun starts_with :: "string \<Rightarrow> string \<Rightarrow> bool" where
  "starts_with [] name = True"
| "starts_with (a # as) [] = False"
| "starts_with (a # as) (c # cs) = (a = c \<and> starts_with as cs)"

fun contains :: "string \<Rightarrow> string \<Rightarrow> bool" where
  "contains a [] = (a = [])"
| "contains a (c # cs) = (starts_with a (c # cs) \<or> contains a cs)"

definition filter_foods :: "Dish list \<Rightarrow> UserProfile \<Rightarrow> string \<Rightarrow> Dish list" where
  "filter_foods food_df p meal_type =
     (let df = filter (\<lambda>row. lower (Category row) = lower meal_type) food_df;
          df = (if dietary_pref p = Veg then filter (\<lambda>row. lower (Veg_NonVeg row) = ''veg'') df
                else df)
      in case allergies p of
           None \<Rightarrow> df
         | Some as \<Rightarrow>
             (if as = [] then df
              else (let lower_allergies = map lower as
                    in filter (\<lambda>row. \<not> list_ex (\<lambda>a. contains a (lower (Dish_Name row)))
                                          lower_allergies) df)))"

record MealEntry =
  dish_name :: string
  calories_kcal :: real
  meal_protein_g :: real
  meal_carbs_g :: real
  meal_fats_g :: real
  category :: string
  veg_nonveg :: string
  price_inr :: real

record DayPlan =
  day :: nat
  meals :: "(string \<times> MealEntry option) list"

record WeeklyPlan =
  plan_user_id :: string
  daily_targets :: MacroTargets
  days :: "DayPlan list"

definition meal_entry :: "Dish \<Rightarrow> string \<Rightarrow> MealEntry" where
  "meal_entry chosen_row meal_type =
     \<lparr>dish_name = Dish_Name chosen_row, calories_kcal = Calories_kcal chosen_row,
      meal_protein_g = Protein_gm chosen_row, meal_carbs_g = Carbs_gm chosen_row,
      meal_fats_g = Fats_gm chosen_row, category = meal_type,
      veg_nonveg = Veg_NonVeg chosen_row,
      price_inr = (case Price_INR chosen_row of Some pr \<Rightarrow> pr | None \<Rightarrow> 0)\<rparr>"

text \<open>
  The inner loop of \<open>generate_weekly_plan\<close>, over the meal types of one day: the running
  \<open>weekly_counts\<close>, the day's \<open>meals\<close> and the store are threaded through.
\<close>

fun plan_meals ::
  "linalg_inv \<Rightarrow> Dish list \<Rightarrow> UserProfile \<Rightarrow> MacroTargets \<Rightarrow> string list \<Rightarrow> (string \<times> int) list
     \<Rightarrow> (string \<times> MealEntry option) list \<Rightarrow> LinUCBBandit
     \<Rightarrow> (error + (string \<times> int) list \<times> (string \<times> MealEntry option) list) \<times> LinUCBBandit" where
  "plan_meals np_inv food_df p dt [] weekly_counts ms s = (Inr (weekly_counts, ms), s)"
| "plan_meals np_inv food_df p dt (meal_type # rest) weekly_counts ms s =
     (let candidates = filter_foods food_df p meal_type
      in if candidates = []
         then plan_meals np_inv food_df p dt rest weekly_counts (AList.update meal_type None ms) s
         else (case select_dish np_inv s p dt meal_type candidates weekly_counts 2 of
                 (Inl e, s1) \<Rightarrow> (Inl e, s1)
               | (Inr None, s1) \<Rightarrow>
                   plan_meals np_inv food_df p dt rest weekly_counts
                     (AList.update meal_type None ms) s1
               | (Inr (Some chosen_row), s1) \<Rightarrow>
                   (let dish_id = Dish_Name chosen_row;
                        weekly_counts = AList.update dish_id
                                          (dict_get weekly_counts dish_id 0 + 1) weekly_counts
                    in plan_meals np_inv food_df p dt rest weekly_counts
                         (AList.update meal_type (Some (meal_entry chosen_row meal_type)) ms) s1)))"

text \<open>The outer loop, over the day indices.\<close>

fun plan_days ::
  "linalg_inv \<Rightarrow> Dish list \<Rightarrow> UserProfile \<Rightarrow> MacroTargets \<Rightarrow> nat list \<Rightarrow> (string \<times> int) list
     \<Rightarrow> DayPlan list \<Rightarrow> LinUCBBandit \<Rightarrow> (error + DayPlan list) \<times> LinUCBBandit" where
  "plan_days np_inv food_df p dt [] weekly_counts ds s = (Inr ds, s)"
| "plan_days np_inv food_df p dt (day_idx # rest) weekly_counts ds s =
     (case plan_meals np_inv food_df p dt MEAL_ORDER weekly_counts [] s of
        (Inl e, s1) \<Rightarrow> (Inl e, s1)
      | (Inr (weekly_counts1, ms), s1) \<Rightarrow>
          plan_days np_inv food_df p dt rest weekly_counts1
            (ds @ [\<lparr>day = day_idx + 1, meals = ms\<rparr>]) s1)"

definition generate_weekly_plan ::
  "linalg_inv \<Rightarrow> Dish list \<Rightarrow> LinUCBBandit \<Rightarrow> UserProfile \<Rightarrow> (error + WeeklyPlan) \<times> LinUCBBandit" where
  "generate_weekly_plan np_inv food_df s p =
     (let dt = compute_macro_targets p
      in case plan_days np_inv food_df p dt [0..<7] [] [] s of
           (Inl e, s1) \<Rightarrow> (Inl e, s1)
         | (Inr ds, s1) \<Rightarrow>
             (Inr \<lparr>plan_user_id = user_id p, daily_targets = dt, days = ds\<rparr>, s1))"

text \<open>How often a dish name stands in the meal slots of a day, and of a plan.\<close>

definition slot_names :: "(string \<times> MealEntry option) list \<Rightarrow> string list" where
  "slot_names ms = concat (map (\<lambda>kv. case snd kv of None \<Rightarrow> [] | Some e \<Rightarrow> [dish_name e]) ms)"

definition plan_names :: "DayPlan list \<Rightarrow> string list" where
  "plan_names ds = concat (map (\<lambda>dp. slot_names (meals dp)) ds)"






section \<open>Concrete inputs\<close>

text \<open>A slight, elderly, sedentary woman who wants to keep her weight.\<close>

definition slight_profile :: UserProfile where
  "slight_profile =
     \<lparr>user_id = ''u2'', height_cm = 150, weight_kg = 40, age = 70, gender = Female,
      activity_level = Sedentary, goal = Maintenance, target_calories = None,
      target_protein_g = None, dietary_pref = Veg, allergies = None\<rparr>"

text \<open>A heavy, sedentary woman who wants to lose weight.\<close>

definition heavy_profile :: UserProfile where
  "heavy_profile =
     \<lparr>user_id = ''u3'', height_cm = 160, weight_kg = 150, age = 50, gender = Female,
      activity_level = Sedentary, goal = WeightLoss, target_calories = None,
      target_protein_g = None, dietary_pref = Veg, allergies = None\<rparr>"

text \<open>
  A stand-in for \<open>numpy.linalg.inv\<close> in the concrete runs below: it inverts the identity
  matrix of dimension 11, which is its own inverse, and raises LinAlgError on every other
  matrix.
\<close>

definition eye_inv :: linalg_inv where
  "eye_inv M = (if M = np_eye 11 then Some M else None)"

text \<open>A profile whose BMI is 15, daily targets, and two breakfast dishes.\<close>

definition plain_profile :: UserProfile where
  "plain_profile =
     \<lparr>user_id = ''u1'', height_cm = 200, weight_kg = 60, age = 30, gender = Female,
      activity_level = Moderate, goal = Maintenance, target_calories = None,
      target_protein_g = None, dietary_pref = Veg, allergies = None\<rparr>"

definition plain_targets :: MacroTargets where
  "plain_targets = \<lparr>calories = 2000, protein_g = 100, carbs_g = 250, fats_g = 50\<rparr>"

definition idli :: Dish where
  "idli = \<lparr>Dish_Name = ''Idli'', Category = ''Breakfast'', Veg_NonVeg = ''Veg'',
            Calories_kcal = 200, Protein_gm = 5, Carbs_gm = 25, Fats_gm = 5, Price_INR = Some 40\<rparr>"

definition poha :: Dish where
  "poha = \<lparr>Dish_Name = ''Poha'', Category = ''Breakfast'', Veg_NonVeg = ''Veg'',
            Calories_kcal = 200, Protein_gm = 10, Carbs_gm = 25, Fats_gm = 5, Price_INR = None\<rparr>"

text \<open>The week planned for \<open>plain_profile\<close> from a table that holds \<open>idli\<close> only.\<close>

definition idli_week :: WeeklyPlan where
  "idli_week =
     \<lparr>plan_user_id = ''u1'',
      daily_targets = \<lparr>calories = 2385.4, protein_g = 108, carbs_g = 380.4, fats_g = 48\<rparr>,
      days = map (\<lambda>i. \<lparr>day = i,
                         meals = [(''breakfast'',
                                   if i \<le> 2 then Some (meal_entry idli ''breakfast'') else None),
                                  (''lunch'', None), (''dinner'', None), (''snack'', None)]\<rparr>)
               [1, 2, 3, 4, 5, 6, 7]\<rparr>"

text \<open>
  The store after one like of \<open>idli\<close> by the user \<open>a||b\<close>, and after one like by the user
  of \<open>plain_profile\<close>.
\<close>

definition piped_profile :: UserProfile where
  "piped_profile = plain_profile\<lparr>user_id := ''a||b''\<rparr>"

definition piped_store :: LinUCBBandit where
  "piped_store = snd (update (init_bandit 11 0.4) piped_profile plain_targets ''breakfast'' idli 1)"

definition liked_store :: LinUCBBandit where
  "liked_store = snd (update (init_bandit 11 0.4) plain_profile plain_targets ''breakfast'' idli 1)"

section \<open>Rounding\<close>

lemma round_half_even_bounds:
  "real_of_int (round_half_even y) \<le> y + 1 / 2 \<and> y - 1 / 2 \<le> real_of_int (round_half_even y)"
  unfolding round_half_even_def Let_def by (auto; linarith)

lemma round_half_even_mono_int:
  assumes "of_int n \<le> y"
  shows "n \<le> round_half_even y"
proof -
  have "n \<le> \<lfloor>y\<rfloor>" using assms by (simp add: le_floor_iff)
  then show ?thesis unfolding round_half_even_def Let_def by auto
qed

lemma round1_ge:
  assumes "of_int n / 10 \<le> x"
  shows "of_int n / 10 \<le> round1 x"
proof -
  have "of_int n \<le> x * 10" using assms by simp
  then have "n \<le> round_half_even (x * 10)" by (rule round_half_even_mono_int)
  then show ?thesis by (simp add: round1_def)
qed

lemma round1_error: "round1 x \<le> x + 1 / 20 \<and> x - 1 / 20 \<le> round1 x"
proof -
  have "round1 x * 10 = real_of_int (round_half_even (x * 10))"
    by (simp add: round1_def)
  then show ?thesis
    using round_half_even_bounds [of "x * 10"] by linarith
qed

lemma round1_zero: "round1 0 = 0"
  by (simp add: round1_def round_half_even_def)

section \<open>Nutrition targets\<close>

lemmas nutrition_defs = compute_macro_targets_def compute_tdee_def compute_bmr_def
  adjust_for_goal_def round1_def round_half_even_def Let_def

text \<open>
  Claim C2, as stated: every profile gets at least 1200 kcal. It fails: the floor stands
  in the weight-loss branch of \<open>adjust_for_goal\<close> only. For \<open>slight_profile\<close>, whose goal
  is maintenance, the daily calories are 991.8.
\<close>

theorem calorie_floor_fails_for_maintenance:
  "calories (compute_macro_targets slight_profile) = 991.8
   \<and> calories (compute_macro_targets slight_profile) < 1200"
  by (simp add: nutrition_defs slight_profile_def)

text \<open>
  Claim C2, amended: for every profile whose goal is weight loss and which gives no
  explicit calorie target, \<open>compute_macro_targets\<close> returns at least 1200 kcal.
\<close>

theorem weight_loss_calorie_floor:
  assumes "goal p = WeightLoss" and "target_calories p = None"
  shows "1200 \<le> calories (compute_macro_targets p)"
proof -
  have "real_of_int 12000 / 10 \<le> adjust_for_goal (compute_tdee p) WeightLoss"
    by (simp add: adjust_for_goal_def)
  then have "real_of_int 12000 / 10 \<le> round1 (adjust_for_goal (compute_tdee p) WeightLoss)"
    by (rule round1_ge)
  then show ?thesis
    using assms by (simp add: compute_macro_targets_def Let_def)
qed

theorem weight_loss_calorie_floor_witness:
  "goal (slight_profile\<lparr>goal := WeightLoss\<rparr>) = WeightLoss
   \<and> target_calories (slight_profile\<lparr>goal := WeightLoss\<rparr>) = None
   \<and> 1200 \<le> calories (compute_macro_targets (slight_profile\<lparr>goal := WeightLoss\<rparr>))"
  using weight_loss_calorie_floor [of "slight_profile\<lparr>goal := WeightLoss\<rparr>"]
  by (simp add: slight_profile_def)

text \<open>
  Claim C5, as stated: protein and fat calories never exceed the daily calories. It
  fails: for \<open>heavy_profile\<close> the targets are 2106.8 kcal, 270 g of protein and 120 g of
  fat, and 270 * 4 + 120 * 9 = 2160.
\<close>

theorem protein_fat_can_exceed_calories:
  "\<not> (protein_g (compute_macro_targets heavy_profile) * 4
        + fats_g (compute_macro_targets heavy_profile) * 9
      \<le> calories (compute_macro_targets heavy_profile))"
  by (simp add: nutrition_defs heavy_profile_def)

text \<open>
  Claim C5, amended: the carbohydrate target is never negative, since the remaining
  calories are floored at 0; and whenever it is positive, the protein and fat calories
  of the returned targets exceed the returned calories by at most 0.7 kcal, the slack of
  rounding each value to one decimal.
\<close>

theorem carbs_never_negative:
  "0 \<le> carbs_g (compute_macro_targets p) \<and>
   (0 < carbs_g (compute_macro_targets p) \<longrightarrow>
      protein_g (compute_macro_targets p) * 4 + fats_g (compute_macro_targets p) * 9
        \<le> calories (compute_macro_targets p) + 0.7)"
proof -
  define daily where
    "daily = (case target_calories p of Some c \<Rightarrow> c
              | None \<Rightarrow> adjust_for_goal (compute_tdee p) (goal p))"
  define protein where
    "protein = (case target_protein_g p of Some g \<Rightarrow> g | None \<Rightarrow> 1.8 * weight_kg p)"
  define fats where "fats = 0.8 * weight_kg p"
  define remaining where "remaining = max 0 (daily - 4 * protein - 9 * fats)"
  have t: "compute_macro_targets p =
      \<lparr>calories = round1 daily, protein_g = round1 protein,
       carbs_g = round1 (remaining / 4), fats_g = round1 fats\<rparr>"
    by (simp add: compute_macro_targets_def Let_def daily_def protein_def fats_def
        remaining_def)
  have "real_of_int 0 / 10 \<le> remaining / 4"
    by (simp add: remaining_def)
  then have "real_of_int 0 / 10 \<le> round1 (remaining / 4)"
    by (rule round1_ge)
  then have nonneg: "0 \<le> round1 (remaining / 4)"
    by simp
  have slack: "round1 protein * 4 + round1 fats * 9 \<le> round1 daily + 0.7"
    if pos: "0 < round1 (remaining / 4)"
  proof -
    have "remaining \<noteq> 0"
      using pos round1_zero by auto
    then have "4 * protein + 9 * fats \<le> daily"
      by (simp add: remaining_def max_def split: if_splits)
    then show ?thesis
      using round1_error [of protein] round1_error [of fats] round1_error [of daily]
      by linarith
  qed
  show ?thesis
    using nonneg slack by (simp add: t)
qed

theorem carbs_never_negative_witness:
  "0 < carbs_g (compute_macro_targets scenario_profile)
   \<and> protein_g (compute_macro_targets scenario_profile) * 4
       + fats_g (compute_macro_targets scenario_profile) * 9
     \<le> calories (compute_macro_targets scenario_profile) + 0.7"
proof -
  have pos: "0 < carbs_g (compute_macro_targets scenario_profile)"
    by (simp add: nutrition_defs scenario_profile_def)
  then show ?thesis
    using carbs_never_negative [of scenario_profile] by simp
qed


text \<open>
  Claim C8, as stated: for the scenario profile the BMR is about 1756.6, the TDEE about
  2722.7, the daily calories about 2723 and the carbohydrates about 421.55 g. It fails:
  the code's values are more than 60, 90, 90 and 20 away from these.
\<close>

theorem scenario_spec_values_off:
  "60 < \<bar>compute_bmr scenario_profile - 1756.6\<bar>
   \<and> 90 < \<bar>compute_tdee scenario_profile - 2722.7\<bar>
   \<and> 90 < \<bar>calories (compute_macro_targets scenario_profile) - 2723\<bar>
   \<and> 20 < \<bar>carbs_g (compute_macro_targets scenario_profile) - 421.55\<bar>"
  by (simp add: nutrition_defs scenario_profile_def)

text \<open>
  Claim C8, amended: for the scenario profile \<open>compute_bmr\<close> returns
  10 * 72 + 6.25 * 175 - 5 * 25 + 5 = 1693.75, the TDEE is 1693.75 * 1.55 = 2625.3125,
  and \<open>compute_macro_targets\<close> returns 2625.3 kcal, 129.6 g of protein, 57.6 g of fat and
  397.1 g of carbohydrates.
\<close>

theorem scenario_targets:
  "compute_bmr scenario_profile = 10 * 72 + 6.25 * 175 - 5 * 25 + 5
   \<and> compute_bmr scenario_profile = 1693.75
   \<and> compute_tdee scenario_profile = 1693.75 * 1.55
   \<and> compute_tdee scenario_profile = 2625.3125
   \<and> compute_macro_targets scenario_profile
       = \<lparr>calories = 2625.3, protein_g = 129.6, carbs_g = 397.1, fats_g = 57.6\<rparr>"
  by (simp add: nutrition_defs scenario_profile_def)

section \<open>The reward of an update\<close>

lemma compute_macro_fit_range:
  "0 \<le> compute_macro_fit mt c p cb f \<and> compute_macro_fit mt c p cb f \<le> 1"
proof -
  have "0 \<le> rel_err v t" for v t
    by (simp add: rel_err_def)
  then show ?thesis
    by (simp add: compute_macro_fit_def Let_def add_nonneg_nonneg)
qed

text \<open>
  Claim C6: for fixed daily targets, meal slot and dish row (hence fixed macro fit), the
  reward \<open>update\<close> computes is strictly greater for feedback +1 than for feedback 0, and
  strictly greater for feedback 0 than for feedback -1.
\<close>

theorem reward_monotone_in_feedback:
  "update_reward dt mt row 0 < update_reward dt mt row 1
   \<and> update_reward dt mt row (- 1) < update_reward dt mt row 0"
  using compute_macro_fit_range [of "get_meal_macro_targets dt mt" "Calories_kcal row"
      "Protein_gm row" "Carbs_gm row" "Fats_gm row"]
  by (simp add: update_reward_def fb_score_def Let_def min_def max_def)

section \<open>The bandit's counters\<close>

lemma get_user_arms_frame [simp]:
  "likes (get_user_arms s uid) = likes s" "dislikes (get_user_arms s uid) = dislikes s"
  "alpha (get_user_arms s uid) = alpha s" "bandit_d (get_user_arms s uid) = bandit_d s"
  by (simp_all add: get_user_arms_def)

lemma set_arm_frame [simp]:
  "likes (set_arm s uid dish arm) = likes s" "dislikes (set_arm s uid dish arm) = dislikes s"
  "alpha (set_arm s uid dish arm) = alpha s" "bandit_d (set_arm s uid dish arm) = bandit_d s"
  by (simp_all add: set_arm_def)

lemma arm_for_frame:
  "likes (snd (arm_for s uid dish)) = likes s" "dislikes (snd (arm_for s uid dish)) = dislikes s"
  "alpha (snd (arm_for s uid dish)) = alpha s" "bandit_d (snd (arm_for s uid dish)) = bandit_d s"
  by (simp_all add: arm_for_def split: option.splits)

lemma score_loop_frame:
  "likes (snd (score_loop np_inv p dt mt rows bs br s)) = likes s
   \<and> dislikes (snd (score_loop np_inv p dt mt rows bs br s)) = dislikes s
   \<and> alpha (snd (score_loop np_inv p dt mt rows bs br s)) = alpha s
   \<and> bandit_d (snd (score_loop np_inv p dt mt rows bs br s)) = bandit_d s"
proof (induction rows arbitrary: bs br s)
  case Nil
  then show ?case by simp
next
  case (Cons row rows)
  show ?case
  proof (cases "build_context p dt mt row")
    case (Inl e)
    then show ?thesis by simp
  next
    case (Inr x)
    obtain arm s1 where af: "arm_for s (user_id p) (Dish_Name row) = (arm, s1)"
      by (cases "arm_for s (user_id p) (Dish_Name row)")
    then have s1: "likes s1 = likes s" "dislikes s1 = dislikes s" "alpha s1 = alpha s" "bandit_d s1 = bandit_d s"
      using arm_for_frame [of s "user_id p" "Dish_Name row"] by simp_all
    show ?thesis
      using Inr af s1 Cons.IH [of _ _ s1]
      by (simp split: sum.splits option.splits)
  qed
qed

lemma select_dish_frame:
  "likes (snd (select_dish np_inv s p dt mt cands wc mpw)) = likes s
   \<and> dislikes (snd (select_dish np_inv s p dt mt cands wc mpw)) = dislikes s
   \<and> alpha (snd (select_dish np_inv s p dt mt cands wc mpw)) = alpha s
   \<and> bandit_d (snd (select_dish np_inv s p dt mt cands wc mpw)) = bandit_d s"
  using score_loop_frame [of np_inv p dt mt _ _ _ "get_user_arms s (user_id p)"]
  by (simp add: select_dish_def Let_def)

lemma score_loop_result:
  "fst (score_loop np_inv p dt mt rows bs br s) = Inr (Some r) \<Longrightarrow> r \<in> set rows \<or> br = Some r"
proof (induction rows arbitrary: bs br s)
  case Nil
  then show ?case by simp
next
  case (Cons row rows)
  show ?case
  proof (cases "build_context p dt mt row")
    case (Inl e)
    with Cons.prems show ?thesis by simp
  next
    case (Inr x)
    obtain arm s1 where af: "arm_for s (user_id p) (Dish_Name row) = (arm, s1)"
      by (cases "arm_for s (user_id p) (Dish_Name row)")
    show ?thesis
      using Cons.prems Inr af Cons.IH [of _ _ s1]
      by (auto split: sum.splits option.splits if_splits)
  qed
qed

lemma select_dish_eligible:
  assumes "fst (select_dish np_inv s p dt mt cands wc mpw) = Inr (Some r)"
  shows "r \<in> set cands \<and> eligible s (user_id p) wc mpw r"
proof -
  let ?s1 = "get_user_arms s (user_id p)"
  let ?f = "filter (eligible ?s1 (user_id p) wc mpw) cands"
  have "?f \<noteq> []" using assms by (auto simp: select_dish_def Let_def)
  then have "fst (score_loop np_inv p dt mt ?f (- 1000000000) None ?s1) = Inr (Some r)"
    using assms by (simp add: select_dish_def Let_def)
  then have "r \<in> set ?f" using score_loop_result by fastforce
  then show ?thesis by (simp add: eligible_def)
qed

lemma dict_get_update:
  "dict_get (AList.update k v m) k' d = (if k' = k then v else dict_get m k' d)"
  by (simp add: dict_get_def update_conv')

lemma count_feedback_dislikes:
  "dict_get (dislikes (count_feedback s key fb)) k 0
     = (if fb < 0 \<and> k = key then dict_get (dislikes s) key 0 + 1 else dict_get (dislikes s) k 0)"
  by (simp add: count_feedback_def dict_get_update)

lemma count_feedback_likes:
  "dict_get (likes (count_feedback s key fb)) k 0
     = (if fb > 0 \<and> k = key then dict_get (likes s) key 0 + 1 else dict_get (likes s) k 0)"
  by (simp add: count_feedback_def dict_get_update)

lemma update_counters:
  "likes (snd (update s p dt mt row fb)) = likes (count_feedback s (user_id p, Dish_Name row) fb)
   \<and> dislikes (snd (update s p dt mt row fb)) = dislikes (count_feedback s (user_id p, Dish_Name row) fb)
   \<and> alpha (snd (update s p dt mt row fb)) = alpha s \<and> bandit_d (snd (update s p dt mt row fb)) = bandit_d s"
proof -
  obtain arm s2 where af: "arm_for (get_user_arms s (user_id p)) (user_id p) (Dish_Name row) = (arm, s2)"
    by (cases "arm_for (get_user_arms s (user_id p)) (user_id p) (Dish_Name row)")
  then have s2: "likes s2 = likes s" "dislikes s2 = dislikes s" "alpha s2 = alpha s" "bandit_d s2 = bandit_d s"
    using arm_for_frame [of "get_user_arms s (user_id p)" "user_id p" "Dish_Name row"] by simp_all
  show ?thesis
    using af s2 by (simp add: update_def Let_def count_feedback_def split: sum.splits)
qed

lemma exec_dislikes_mono:
  "dict_get (dislikes s) k 0 \<le> dict_get (dislikes (exec np_inv s c)) k 0"
proof (cases c)
  case (Select p dt mt cands wc mpw)
  then show ?thesis using select_dish_frame [of np_inv s p dt mt cands wc mpw] by simp
next
  case (Update p dt mt row fb)
  then show ?thesis
    using update_counters [of s p dt mt row fb] by (simp add: count_feedback_dislikes)
qed

lemma exec_all_dislikes_mono:
  "dict_get (dislikes s) k 0 \<le> dict_get (dislikes (exec_all np_inv s calls)) k 0"
  unfolding exec_all_def
proof (induction calls arbitrary: s)
  case Nil
  then show ?case by simp
next
  case (Cons c calls)
  have "dict_get (dislikes s) k 0 \<le> dict_get (dislikes (exec np_inv s c)) k 0"
    by (rule exec_dislikes_mono)
  also have "\<dots> \<le> dict_get (dislikes (foldl (exec np_inv) (exec np_inv s c) calls)) k 0"
    by (rule Cons.IH)
  finally show ?case by simp
qed

lemma init_counters: "dict_get (dislikes (init_bandit n a)) k 0 = 0" "dict_get (likes (init_bandit n a)) k 0 = 0"
  by (simp_all add: init_bandit_def dict_get_def)

lemma veto_step:
  assumes "0 \<le> dict_get (dislikes s) (user_id p, Dish_Name row) 0"
  shows "0 < dict_get (dislikes (exec_all np_inv (snd (update s p dt mt row (- 1))) calls)) (user_id p, Dish_Name row) 0"
proof -
  have "0 < dict_get (dislikes (snd (update s p dt mt row (- 1)))) (user_id p, Dish_Name row) 0"
    using assms update_counters [of s p dt mt row "- 1"] by (simp add: count_feedback_dislikes)
  then show ?thesis
    using exec_all_dislikes_mono [of "snd (update s p dt mt row (- 1))" "(user_id p, Dish_Name row)" np_inv calls]
    by linarith
qed

text \<open>
  Claim C1: take a store built by the constructor and any calls of \<open>select_dish\<close> and
  \<open>update\<close>. After \<open>update\<close> with feedback -1 for user U and dish D, and after any further
  calls, the dislike counter of (U, D) is positive; no call decreases a dislike counter;
  and \<open>select_dish\<close> for U never returns D, whatever the candidates, targets, meal slot
  and weekly counts.
\<close>

theorem dislike_veto:
  assumes "s = exec_all np_inv (init_bandit n a) before"
      and "s' = exec_all np_inv (snd (update s p dt mt row (- 1))) after"
      and "user_id p' = user_id p"
  shows "0 < dict_get (dislikes s') (user_id p, Dish_Name row) 0
       \<and> dict_get (dislikes t) k 0 \<le> dict_get (dislikes (exec np_inv t c)) k 0
       \<and> (\<forall>r. fst (select_dish np_inv s' p' dt' mt' cands wc mpw) = Inr (Some r)
              \<longrightarrow> Dish_Name r \<noteq> Dish_Name row)"
proof -
  have "0 \<le> dict_get (dislikes s) (user_id p, Dish_Name row) 0"
    using exec_all_dislikes_mono [of "init_bandit n a" "(user_id p, Dish_Name row)" np_inv before]
      assms(1)
    by (simp add: init_counters)
  then have pos: "0 < dict_get (dislikes s') (user_id p, Dish_Name row) 0"
    unfolding assms(2) by (rule veto_step)
  have "Dish_Name r \<noteq> Dish_Name row"
    if sel: "fst (select_dish np_inv s' p' dt' mt' cands wc mpw) = Inr (Some r)" for r
  proof -
    have "eligible s' (user_id p') wc mpw r"
      using select_dish_eligible [OF sel] by simp
    then have "\<not> 0 < dict_get (dislikes s') (user_id p, Dish_Name r) 0"
      by (simp add: eligible_def assms(3))
    with pos show ?thesis by auto
  qed
  then show ?thesis
    using pos exec_dislikes_mono by blast
qed

lemma exec_neutral_counters:
  assumes "neutral_for uid dish c"
  shows "dict_get (likes (exec np_inv s c)) (uid, dish) 0 = dict_get (likes s) (uid, dish) 0
       \<and> dict_get (dislikes (exec np_inv s c)) (uid, dish) 0 = dict_get (dislikes s) (uid, dish) 0"
proof (cases c)
  case (Select p dt mt cands wc mpw)
  then show ?thesis using select_dish_frame [of np_inv s p dt mt cands wc mpw] by simp
next
  case (Update p dt mt row fb)
  then show ?thesis
    using assms update_counters [of s p dt mt row fb]
    by (auto simp: count_feedback_dislikes count_feedback_likes)
qed

lemma exec_alpha: "alpha (exec np_inv s c) = alpha s"
proof (cases c)
  case (Select p dt mt cands wc mpw)
  then show ?thesis using select_dish_frame [of np_inv s p dt mt cands wc mpw] by simp
next
  case (Update p dt mt row fb)
  then show ?thesis using update_counters [of s p dt mt row fb] by simp
qed

lemma exec_all_alpha: "alpha (exec_all np_inv s calls) = alpha s"
  unfolding exec_all_def by (induction calls arbitrary: s) (simp_all add: exec_alpha)

lemma exec_all_neutral_counters:
  assumes "list_all (neutral_for uid dish) calls"
  shows "dict_get (likes (exec_all np_inv s calls)) (uid, dish) 0 = dict_get (likes s) (uid, dish) 0
       \<and> dict_get (dislikes (exec_all np_inv s calls)) (uid, dish) 0 = dict_get (dislikes s) (uid, dish) 0"
  using assms unfolding exec_all_def
proof (induction calls arbitrary: s)
  case Nil
  then show ?case by simp
next
  case (Cons c calls)
  then show ?case
    using exec_neutral_counters [of uid dish c np_inv s] by simp
qed

text \<open>
  Claim C10: \<open>update\<close> with feedback 0 changes neither the likes nor the dislikes. So for
  a store built by the constructor and calls among which every update of (user, dish)
  had feedback 0, both counters of the pair are 0, and the score \<open>select_dish\<close> gives a
  candidate of that pair is its LinUCB score plus the bonus of 0.05.
\<close>

theorem neutral_feedback_frame:
  "likes (snd (update s p dt mt row 0)) = likes s
   \<and> dislikes (snd (update s p dt mt row 0)) = dislikes s
   \<and> (list_all (neutral_for uid dish) calls \<longrightarrow>
        dict_get (likes (exec_all np_inv (init_bandit n a) calls)) (uid, dish) 0 = 0
      \<and> dict_get (dislikes (exec_all np_inv (init_bandit n a) calls)) (uid, dish) 0 = 0
      \<and> candidate_score np_inv (exec_all np_inv (init_bandit n a) calls) uid dish arm x
          = (case linucb_score np_inv a arm x of
               Inl e \<Rightarrow> Inl e
             | Inr score \<Rightarrow> Inr (map_option (\<lambda>v. v + 0.05) score)))"
proof -
  have frame: "likes (snd (update s p dt mt row 0)) = likes s
      \<and> dislikes (snd (update s p dt mt row 0)) = dislikes s"
    using update_counters [of s p dt mt row 0] by (simp add: count_feedback_def)
  have unseen: "dict_get (likes (exec_all np_inv (init_bandit n a) calls)) (uid, dish) 0 = 0
      \<and> dict_get (dislikes (exec_all np_inv (init_bandit n a) calls)) (uid, dish) 0 = 0"
    if "list_all (neutral_for uid dish) calls"
    using exec_all_neutral_counters [OF that, of np_inv "init_bandit n a"]
    by (simp add: init_counters)
  have a: "alpha (exec_all np_inv (init_bandit n a) calls) = a"
    by (simp add: exec_all_alpha init_bandit_def)
  show ?thesis
    using frame unseen a by (simp add: candidate_score_def split: sum.splits)
qed

section \<open>The weekly planner\<close>

lemma plan_meals_Cons_cases:
  assumes "plan_meals np_inv food p dt (mt # rest) wc ms s = (Inr (wc', ms'), s')"
  obtains
    (null) s1 where "plan_meals np_inv food p dt rest wc (AList.update mt None ms) s1
                       = (Inr (wc', ms'), s')"
      and "dislikes s1 = dislikes s"
  | (chosen) row s1 where
      "select_dish np_inv s p dt mt (filter_foods food p mt) wc 2 = (Inr (Some row), s1)"
      and "plan_meals np_inv food p dt rest
             (AList.update (Dish_Name row) (dict_get wc (Dish_Name row) 0 + 1) wc)
             (AList.update mt (Some (meal_entry row mt)) ms) s1 = (Inr (wc', ms'), s')"
proof (cases "filter_foods food p mt = []")
  case True
  then show ?thesis using assms null [of s] by simp
next
  case False
  obtain res s1 where sel: "select_dish np_inv s p dt mt (filter_foods food p mt) wc 2 = (res, s1)"
    by (cases "select_dish np_inv s p dt mt (filter_foods food p mt) wc 2")
  have d: "dislikes s1 = dislikes s"
    using select_dish_frame [of np_inv s p dt mt "filter_foods food p mt" wc 2] sel by simp
  show ?thesis
  proof (cases res)
    case (Inl e)
    then show ?thesis using assms False sel by simp
  next
    case (Inr r)
    show ?thesis
    proof (cases r)
      case None
      then show ?thesis using assms False sel Inr d null [of s1] by simp
    next
      case (Some row)
      then show ?thesis using assms False sel Inr chosen [of row s1] by (simp add: Let_def)
    qed
  qed
qed

lemma select_dish_chosen:
  assumes "select_dish np_inv s p dt mt cands wc mpw = (Inr (Some r), s1)"
  shows "r \<in> set cands" and "\<not> 0 < dict_get (dislikes s) (user_id p, Dish_Name r) 0"
    and "dict_get wc (Dish_Name r) 0 < mpw" and "dislikes s1 = dislikes s"
proof -
  have "fst (select_dish np_inv s p dt mt cands wc mpw) = Inr (Some r)"
    using assms by simp
  from select_dish_eligible [OF this]
  show "r \<in> set cands" and "\<not> 0 < dict_get (dislikes s) (user_id p, Dish_Name r) 0"
    and "dict_get wc (Dish_Name r) 0 < mpw"
    by (simp_all add: eligible_def)
  show "dislikes s1 = dislikes s"
    using select_dish_frame [of np_inv s p dt mt cands wc mpw] assms by simp
qed

lemma slot_names_Cons:
  "slot_names (kv # ms) = (case snd kv of None \<Rightarrow> [] | Some e \<Rightarrow> [dish_name e]) @ slot_names ms"
  by (simp add: slot_names_def)

lemma count_slot_names_update:
  "count_list (slot_names (AList.update k v ms)) n
     \<le> count_list (slot_names ms) n
        + count_list (case v of None \<Rightarrow> [] | Some e \<Rightarrow> [dish_name e]) n"
proof (induction ms)
  case Nil
  then show ?case by (simp add: slot_names_def)
next
  case (Cons kv ms)
  then show ?case
    by (cases kv) (auto simp: slot_names_Cons split: option.splits)
qed

lemma plan_meals_counts:
  assumes "plan_meals np_inv food p dt mts wc ms s = (Inr (wc', ms'), s')"
      and "\<And>n. dict_get wc n 0 \<le> 2"
  shows "(\<forall>n. dict_get wc' n 0 \<le> 2)
       \<and> (\<forall>n. int (count_list (slot_names ms') n) + dict_get wc n 0
               \<le> int (count_list (slot_names ms) n) + dict_get wc' n 0)"
  using assms
proof (induction mts arbitrary: wc ms s)
  case Nil
  then show ?case by simp
next
  case (Cons mt rest)
  from Cons.prems(1) show ?case
  proof (cases rule: plan_meals_Cons_cases)
    case (null s1)
    have ih: "(\<forall>n. dict_get wc' n 0 \<le> 2)
       \<and> (\<forall>n. int (count_list (slot_names ms') n) + dict_get wc n 0
               \<le> int (count_list (slot_names (AList.update mt None ms)) n) + dict_get wc' n 0)"
      using Cons.IH [OF null(1)] Cons.prems(2) by simp
    have "int (count_list (slot_names ms') n) + dict_get wc n 0
               \<le> int (count_list (slot_names ms) n) + dict_get wc' n 0" for n
    proof -
      have "int (count_list (slot_names (AList.update mt None ms)) n)
              \<le> int (count_list (slot_names ms) n)"
        using count_slot_names_update [of mt None ms n] by simp
      moreover have "int (count_list (slot_names ms') n) + dict_get wc n 0
               \<le> int (count_list (slot_names (AList.update mt None ms)) n) + dict_get wc' n 0"
        using ih by simp
      ultimately show ?thesis by linarith
    qed
    then show ?thesis using ih by simp
  next
    case (chosen row s1)
    let ?name = "Dish_Name row"
    let ?wc1 = "AList.update ?name (dict_get wc ?name 0 + 1) wc"
    let ?ms1 = "AList.update mt (Some (meal_entry row mt)) ms"
    have cap: "dict_get wc ?name 0 < 2"
      using select_dish_chosen(3) [OF chosen(1)] .
    have wc1: "dict_get ?wc1 n 0 = (if n = ?name then dict_get wc ?name 0 + 1 else dict_get wc n 0)" for n
      by (simp add: dict_get_update)
    have wc1_le: "dict_get ?wc1 n 0 \<le> 2" for n
      using cap Cons.prems(2) [of n] by (simp add: wc1)
    have ih: "(\<forall>n. dict_get wc' n 0 \<le> 2)
       \<and> (\<forall>n. int (count_list (slot_names ms') n) + dict_get ?wc1 n 0
               \<le> int (count_list (slot_names ?ms1) n) + dict_get wc' n 0)"
      using Cons.IH [OF chosen(2)] wc1_le by simp
    have ms1: "int (count_list (slot_names ?ms1) n)
        \<le> int (count_list (slot_names ms) n) + (if n = ?name then 1 else 0)" for n
      using count_slot_names_update [of mt "Some (meal_entry row mt)" ms n]
      by (auto simp: meal_entry_def)
    have "int (count_list (slot_names ms') n) + dict_get wc n 0
               \<le> int (count_list (slot_names ms) n) + dict_get wc' n 0" for n
    proof -
      have "int (count_list (slot_names ms') n) + dict_get ?wc1 n 0
               \<le> int (count_list (slot_names ?ms1) n) + dict_get wc' n 0"
        using ih by simp
      then show ?thesis using ms1 [of n] wc1 [of n] by (simp split: if_splits)
    qed
    then show ?thesis using ih by simp
  qed
qed

lemma plan_names_snoc:
  "plan_names (ds @ [dp]) = plan_names ds @ slot_names (meals dp)"
  by (simp add: plan_names_def)

lemma plan_days_counts:
  assumes "plan_days np_inv food p dt idxs wc ds s = (Inr ds', s')"
      and "\<And>n. dict_get wc n 0 \<le> 2"
  shows "\<exists>wc'. (\<forall>n. dict_get wc' n 0 \<le> 2)
       \<and> (\<forall>n. int (count_list (plan_names ds') n) + dict_get wc n 0
               \<le> int (count_list (plan_names ds) n) + dict_get wc' n 0)"
  using assms
proof (induction idxs arbitrary: wc ds s)
  case Nil
  then show ?case by auto
next
  case (Cons idx rest)
  obtain res s1 where pm: "plan_meals np_inv food p dt MEAL_ORDER wc [] s = (res, s1)"
    by (cases "plan_meals np_inv food p dt MEAL_ORDER wc [] s")
  show ?case
  proof (cases res)
    case (Inl e)
    then show ?thesis using Cons.prems(1) pm by simp
  next
    case (Inr r)
    obtain wc1 ms where r: "r = (wc1, ms)" by (cases r)
    let ?ds1 = "ds @ [\<lparr>day = idx + 1, meals = ms\<rparr>]"
    have rest: "plan_days np_inv food p dt rest wc1 ?ds1 s1 = (Inr ds', s')"
      using Cons.prems(1) pm Inr r by simp
    have day: "(\<forall>n. dict_get wc1 n 0 \<le> 2)
       \<and> (\<forall>n. int (count_list (slot_names ms) n) + dict_get wc n 0
               \<le> int (count_list (slot_names []) n) + dict_get wc1 n 0)"
      using plan_meals_counts [of np_inv food p dt MEAL_ORDER wc "[]" s wc1 ms s1] pm Inr r Cons.prems(2)
      by simp
    then obtain wc' where wc': "\<forall>n. dict_get wc' n 0 \<le> 2"
      and le: "\<forall>n. int (count_list (plan_names ds') n) + dict_get wc1 n 0
               \<le> int (count_list (plan_names ?ds1) n) + dict_get wc' n 0"
      using Cons.IH [OF rest] by blast
    have "int (count_list (plan_names ds') n) + dict_get wc n 0
               \<le> int (count_list (plan_names ds) n) + dict_get wc' n 0" for n
    proof -
      have a: "int (count_list (plan_names ds') n) + dict_get wc1 n 0
               \<le> int (count_list (plan_names ds) n) + int (count_list (slot_names ms) n) + dict_get wc' n 0"
        using le by (simp add: plan_names_snoc)
      have b: "int (count_list (slot_names ms) n) + dict_get wc n 0 \<le> dict_get wc1 n 0"
        using day by (simp add: slot_names_def)
      show ?thesis using a b by linarith
    qed
    then show ?thesis using wc' by blast
  qed
qed

text \<open>
  Claim C3: in the plan one call of \<open>generate_weekly_plan\<close> returns, no dish name stands
  in more than 2 of the meal slots of the seven days.
\<close>

theorem weekly_cap:
  assumes "fst (generate_weekly_plan np_inv food s p) = Inr plan"
  shows "count_list (plan_names (days plan)) n \<le> 2"
proof -
  let ?dt = "compute_macro_targets p"
  obtain res s1 where pd: "plan_days np_inv food p ?dt [0..<7] [] [] s = (res, s1)"
    by (cases "plan_days np_inv food p ?dt [0..<7] [] [] s")
  then obtain ds where res: "res = Inr ds" and plan: "days plan = ds"
    using assms by (cases res) (auto simp: generate_weekly_plan_def Let_def)
  have "\<exists>wc'. (\<forall>n. dict_get wc' n 0 \<le> 2)
       \<and> (\<forall>n. int (count_list (plan_names ds) n) + dict_get [] n 0
               \<le> int (count_list (plan_names []) n) + dict_get wc' n 0)"
    using plan_days_counts [of np_inv food p ?dt "[0..<7]" "[]" "[]" s ds s1] pd res
    by (simp add: dict_get_def)
  then obtain wc' where "\<forall>n. dict_get wc' n 0 \<le> 2"
    and "\<forall>n. int (count_list (plan_names ds) n) \<le> dict_get wc' n 0"
    by (auto simp: dict_get_def plan_names_def)
  then have "int (count_list (plan_names ds) n) \<le> 2"
    using order_trans by blast
  then show ?thesis using plan by simp
qed


lemma user_arms_get_user_arms [simp]: "user_arms (get_user_arms s uid) uid' = user_arms s uid'"
  by (simp add: user_arms_def get_user_arms_def dict_get_def update_conv')

lemma user_arms_set_arm [simp]:
  "user_arms (set_arm s uid dish arm) uid = AList.update dish arm (user_arms s uid)"
  by (simp add: user_arms_def set_arm_def dict_get_def update_conv')













section \<open>Persistence\<close>

lemma update_fresh: "k \<notin> fst ` set al \<Longrightarrow> AList.update k v al = al @ [(k, v)]"
  by (induction al) auto

lemma foldl_update_distinct:
  "distinct (map fst (acc @ xs))
     \<Longrightarrow> foldl (\<lambda>acc kv. AList.update (fst kv) (snd kv) acc) acc xs = acc @ xs"
proof (induction xs arbitrary: acc)
  case Nil
  then show ?case by simp
next
  case (Cons kv xs)
  have "fst kv \<notin> fst ` set acc"
    using Cons.prems by auto
  then have "AList.update (fst kv) (snd kv) acc = acc @ [kv]"
    by (simp add: update_fresh)
  then show ?case
    using Cons.IH [of "acc @ [kv]"] Cons.prems by simp
qed

lemma dict_of_items_distinct: "distinct (map fst xs) \<Longrightarrow> dict_of_items xs = xs"
  using foldl_update_distinct [of "[]" xs] by (simp add: dict_of_items_def)

lemma split_sep_counter_key: "pipe_safe u \<Longrightarrow> split_sep (u @ ''||'' @ d) = Some (u, d)"
proof (induction u rule: pipe_safe.induct)
  case (1 c1 c2 cs)
  have no: "\<not> (c1 = CHR ''|'' \<and> c2 = CHR ''|'')" and safe: "pipe_safe (c2 # cs)"
    using "1.prems" by simp_all
  have ih: "split_sep ((c2 # cs) @ ''||'' @ d) = Some (c2 # cs, d)"
    using "1.IH" safe by blast
  have "split_sep ((c1 # c2 # cs) @ ''||'' @ d) = split_sep (c1 # c2 # (cs @ ''||'' @ d))"
    by simp
  also have "\<dots> = (case split_sep (c2 # (cs @ ''||'' @ d)) of None \<Rightarrow> None
                     | Some (u, d) \<Rightarrow> Some (c1 # u, d))"
    by (simp only: split_sep.simps(1) no if_False)
  also have "c2 # (cs @ ''||'' @ d) = (c2 # cs) @ ''||'' @ d"
    by simp
  finally show ?case
    by (simp only: ih option.case prod.case)
next
  case (2 c)
  then show ?case by simp
next
  case 3
  then show ?case by simp
qed

lemma split_sep_key: "pipe_safe (fst k) \<Longrightarrow> split_sep (counter_key k) = Some k"
  unfolding counter_key_def using split_sep_counter_key [of "fst k" "snd k"]
  by (simp only: prod.collapse)

lemma counter_key_inj:
  assumes "pipe_safe (fst k)" and "pipe_safe (fst k')" and "counter_key k = counter_key k'"
  shows "k = k'"
proof -
  have "Some k = split_sep (counter_key k)"
    using assms(1) by (simp only: split_sep_key)
  also have "\<dots> = split_sep (counter_key k')"
    by (simp only: assms(3))
  also have "\<dots> = Some k'"
    using assms(2) by (simp only: split_sep_key)
  finally show ?thesis by simp
qed

lemma load_counts_round_trip:
  assumes "list_all (\<lambda>kc. pipe_safe (fst (fst kc))) xs" and "distinct (map fst (acc @ xs))"
  shows "load_counts (map (\<lambda>kc. (counter_key (fst kc), snd kc)) xs) acc = Inr (acc @ xs)"
  using assms
proof (induction xs arbitrary: acc)
  case Nil
  then show ?case by simp
next
  case (Cons kc xs)
  have "pipe_safe (fst (fst kc))"
    using Cons.prems(1) by simp
  then have split: "split_sep (counter_key (fst kc)) = Some (fst kc)"
    by (rule split_sep_key)
  have "fst kc \<notin> fst ` set acc"
    using Cons.prems(2) by auto
  then have "AList.update (fst kc) (snd kc) acc = acc @ [kc]"
    by (simp add: update_fresh)
  then show ?case
    using split Cons.IH [of "acc @ [kc]"] Cons.prems by simp
qed

lemma encoded_counts:
  assumes "list_all (\<lambda>kc. pipe_safe (fst (fst kc))) xs" and "distinct (map fst xs)"
  shows "dict_of_items (map (\<lambda>kc. (counter_key (fst kc), snd kc)) xs)
           = map (\<lambda>kc. (counter_key (fst kc), snd kc)) xs"
proof -
  have "inj_on counter_key (set (map fst xs))"
    using assms(1) by (auto simp: inj_on_def list_all_iff intro: counter_key_inj)
  then have "distinct (map counter_key (map fst xs))"
    using assms(2) by (subst distinct_map) simp
  then have "distinct (map fst (map (\<lambda>kc. (counter_key (fst kc), snd kc)) xs))"
    by (simp add: comp_def)
  then show ?thesis
    by (rule dict_of_items_distinct)
qed

lemma arms_round_trip:
  assumes "distinct (map fst arms)"
  shows "dict_of_items (map (\<lambda>da. (fst da, from_serializable (snd da)))
           (dict_of_items (map (\<lambda>da. (fst da, to_serializable (snd da))) arms))) = arms"
proof -
  have "dict_of_items (map (\<lambda>da. (fst da, to_serializable (snd da))) arms)
          = map (\<lambda>da. (fst da, to_serializable (snd da))) arms"
    using assms by (intro dict_of_items_distinct) (simp add: comp_def)
  moreover have "dict_of_items (map (\<lambda>da. (fst da, from_serializable (to_serializable (snd da)))) arms)
          = map (\<lambda>da. (fst da, from_serializable (to_serializable (snd da)))) arms"
    using assms by (intro dict_of_items_distinct) (simp add: comp_def)
  moreover have "from_serializable (to_serializable a) = a" for a
    by (simp add: from_serializable_def to_serializable_def)
  ultimately show ?thesis by (simp add: comp_def)
qed

lemma state_round_trip:
  assumes "distinct (map fst st)" and "list_all (\<lambda>ua. distinct (map fst (snd ua))) st"
  shows "load_state (dict_of_items (map (\<lambda>ua. (fst ua,
            dict_of_items (map (\<lambda>da. (fst da, to_serializable (snd da))) (snd ua)))) st)) = st"
proof -
  let ?ser = "\<lambda>ua. (fst ua, dict_of_items (map (\<lambda>da. (fst da, to_serializable (snd da))) (snd ua)))"
  let ?de = "\<lambda>ua. (fst ua, dict_of_items (map (\<lambda>da. (fst da, from_serializable (snd da))) (snd ua)))"
  have ser: "dict_of_items (map ?ser st) = map ?ser st"
    using assms(1) by (intro dict_of_items_distinct) (simp add: comp_def)
  have "load_state items = dict_of_items (map ?de items)" for items
    by (simp add: load_state_def dict_of_items_def foldl_map)
  then have "load_state (map ?ser st) = dict_of_items (map (?de \<circ> ?ser) st)"
    by simp
  also have "map (?de \<circ> ?ser) st = st"
    using assms(2) by (induction st) (simp_all add: arms_round_trip)
  also have "dict_of_items st = st"
    using assms(1) by (rule dict_of_items_distinct)
  finally show ?thesis using ser by simp
qed

text \<open>
  Beyond the claims: \<open>load\<close> after \<open>save\<close> gives back the store, with the same \<open>d\<close>,
  \<open>alpha\<close>, arms and counters, when no user id of a counter key holds the separator.
\<close>

theorem round_trip_without_separator:
  assumes "wf_dicts s" and "pipe_safe_keys s"
  shows "load path (save s path fs) = Inr s"
proof -
  have st: "load_state (json_state (serialize s)) = state s"
    using assms(1) by (simp add: serialize_def wf_dicts_def state_round_trip)
  have ls: "load_counts (json_likes (serialize s)) [] = Inr (likes s)"
    using assms load_counts_round_trip [of "likes s" "[]"]
    by (simp add: serialize_def wf_dicts_def pipe_safe_keys_def encoded_counts)
  have ds: "load_counts (json_dislikes (serialize s)) [] = Inr (dislikes s)"
    using assms load_counts_round_trip [of "dislikes s" "[]"]
    by (simp add: serialize_def wf_dicts_def pipe_safe_keys_def encoded_counts)
  have "deserialize (serialize s) = Inr s"
    using st ls ds by (cases s) (simp add: deserialize_def init_bandit_def serialize_def Let_def)
  then show ?thesis by (simp add: load_def save_def)
qed

section \<open>Concrete runs\<close>

lemma np_zeros_11: "np_zeros 11 = [0, 0, 0, 0, 0, 0, 0, 0, 0, 0, 0]"
  by (simp add: np_zeros_def eval_nat_numeral)

lemma np_eye_11: "np_eye 11 =
  [[1, 0, 0, 0, 0, 0, 0, 0, 0, 0, 0], [0, 1, 0, 0, 0, 0, 0, 0, 0, 0, 0],
   [0, 0, 1, 0, 0, 0, 0, 0, 0, 0, 0], [0, 0, 0, 1, 0, 0, 0, 0, 0, 0, 0],
   [0, 0, 0, 0, 1, 0, 0, 0, 0, 0, 0], [0, 0, 0, 0, 0, 1, 0, 0, 0, 0, 0],
   [0, 0, 0, 0, 0, 0, 1, 0, 0, 0, 0], [0, 0, 0, 0, 0, 0, 0, 1, 0, 0, 0],
   [0, 0, 0, 0, 0, 0, 0, 0, 1, 0, 0], [0, 0, 0, 0, 0, 0, 0, 0, 0, 1, 0],
   [0, 0, 0, 0, 0, 0, 0, 0, 0, 0, 1]]"
  by (simp add: np_eye_def upt_rec)

lemmas bandit_eval = select_dish_def update_def init_bandit_def get_user_arms_def eligible_def
  dict_get_def Let_def build_context_def bmi_def arm_for_def user_arms_def set_arm_def
  candidate_score_def linucb_score_def create_def np_eye_11 np_zeros_11
  np_matvec_def np_dot_def np_vecmat_def np_outer_def np_iadd_mat_def np_iadd_vec_def
  count_feedback_def power2_eq_square

theorem dislike_veto_witness:
  "fst (select_dish eye_inv
          (exec_all eye_inv
             (snd (update (exec_all eye_inv (init_bandit 11 0.4) []) plain_profile plain_targets
                     ''breakfast'' idli (- 1))) [])
          plain_profile plain_targets ''breakfast'' [idli, poha] [] 2) = Inr (Some poha)
   \<and> Dish_Name poha \<noteq> Dish_Name idli
   \<and> 0 < dict_get (dislikes (exec_all eye_inv
             (snd (update (exec_all eye_inv (init_bandit 11 0.4) []) plain_profile plain_targets
                     ''breakfast'' idli (- 1))) [])) (user_id plain_profile, Dish_Name idli) 0"
proof -
  have "0 \<le> sqrt (51 / 25)"
    by simp
  then have root: "- 1000000000 < 2 * sqrt (51 / 25) / 5 + 1 / (20 :: real)"
    by linarith
  have sel: "fst (select_dish eye_inv
          (exec_all eye_inv
             (snd (update (exec_all eye_inv (init_bandit 11 0.4) []) plain_profile plain_targets
                     ''breakfast'' idli (- 1))) [])
          plain_profile plain_targets ''breakfast'' [idli, poha] [] 2) = Inr (Some poha)"
    using root
    by (simp add: bandit_eval plain_profile_def plain_targets_def idli_def poha_def exec_all_def
        eye_inv_def)
  show ?thesis
    using sel
      dislike_veto [OF refl refl refl, of eye_inv 11 "0.4" "[]" plain_profile plain_targets
        "''breakfast''" idli "[]" _ _ _ plain_targets "''breakfast''" "[idli, poha]" "[]" 2]
    by simp
qed

theorem neutral_feedback_frame_witness:
  "list_all (neutral_for ''u1'' ''Idli'')
     [Update plain_profile plain_targets ''breakfast'' idli 0,
      Select plain_profile plain_targets ''breakfast'' [idli, poha] [] 2,
      Update plain_profile plain_targets ''breakfast'' poha (- 1)]
   \<and> dict_get (likes (exec_all eye_inv (init_bandit 11 0.4)
        [Update plain_profile plain_targets ''breakfast'' idli 0,
         Select plain_profile plain_targets ''breakfast'' [idli, poha] [] 2,
         Update plain_profile plain_targets ''breakfast'' poha (- 1)])) (''u1'', ''Idli'') 0 = 0
   \<and> dict_get (dislikes (exec_all eye_inv (init_bandit 11 0.4)
        [Update plain_profile plain_targets ''breakfast'' idli 0,
         Select plain_profile plain_targets ''breakfast'' [idli, poha] [] 2,
         Update plain_profile plain_targets ''breakfast'' poha (- 1)])) (''u1'', ''Idli'') 0 = 0"
proof -
  have neutral: "list_all (neutral_for ''u1'' ''Idli'')
     [Update plain_profile plain_targets ''breakfast'' idli 0,
      Select plain_profile plain_targets ''breakfast'' [idli, poha] [] 2,
      Update plain_profile plain_targets ''breakfast'' poha (- 1)]"
    by (simp add: poha_def)
  show ?thesis
    using neutral neutral_feedback_frame [of _ _ _ _ _ "''u1''" "''Idli''" _ eye_inv 11 "0.4"]
    by blast
qed

lemma lower_words:
  "lower ''Breakfast'' = ''breakfast''" "lower ''breakfast'' = ''breakfast''"
  "lower ''lunch'' = ''lunch''" "lower ''dinner'' = ''dinner''" "lower ''snack'' = ''snack''"
  "lower ''Veg'' = ''veg''"
  by (simp_all add: lower_def lower_char_def char_of_def bit_0)

lemma score_above_floor: "0 \<le> q \<Longrightarrow> (- 1000000000 < 2 * sqrt q / 5 + 1 / 20) = True"
proof -
  assume "0 \<le> q"
  then have "0 \<le> sqrt q" by simp
  then have "- 1000000000 < 2 * sqrt q / 5 + 1 / 20" by linarith
  then show ?thesis by simp
qed

lemmas plan_eval = generate_weekly_plan_def filter_foods_def MEAL_ORDER_def meal_entry_def
  lower_words upt_rec score_above_floor

lemma idli_week_run:
  "fst (generate_weekly_plan eye_inv [idli] (init_bandit 11 0.4) plain_profile) = Inr idli_week"
  by (simp add: plan_eval bandit_eval nutrition_defs plain_profile_def idli_def eye_inv_def
      idli_week_def)

lemma idli_week_count: "count_list (plan_names (days idli_week)) ''Idli'' = 2"
  by (simp add: idli_week_def plan_names_def slot_names_def meal_entry_def idli_def)




theorem weekly_cap_witness:
  "fst (generate_weekly_plan eye_inv [idli] (init_bandit 11 0.4) plain_profile) = Inr idli_week
   \<and> count_list (plan_names (days idli_week)) ''Idli'' \<le> 2"
  using idli_week_run weekly_cap [OF idli_week_run] by simp


lemma piped_counters:
  "likes piped_store = [((''a||b'', ''Idli''), 1)]" "dislikes piped_store = []"
  by (simp_all add: piped_store_def update_counters count_feedback_def init_bandit_def
      piped_profile_def plain_profile_def idli_def dict_get_def)

text \<open>
  Claim C4 at a store the code can reach: the user \<open>a||b\<close> likes \<open>Idli\<close>. \<open>save\<close> writes the
  key \<open>a||b||Idli\<close>, \<open>load\<close> splits it at the first separator, and the like is restored
  for the user \<open>a\<close> and the dish \<open>b||Idli\<close>: the count of (\<open>a||b\<close>, \<open>Idli\<close>) is 1 before and 0
  after.
\<close>

theorem separator_in_user_id_breaks_round_trip:
  "dict_get (likes piped_store) (''a||b'', ''Idli'') 0 = 1
   \<and> (\<exists>s'. load ''bandit.json'' (save piped_store ''bandit.json'' (\<lambda>path. None)) = Inr s'
          \<and> likes s' = [((''a'', ''b||Idli''), 1)]
          \<and> dict_get (likes s') (''a||b'', ''Idli'') 0 = 0)"
  by (simp add: piped_counters load_def save_def deserialize_def serialize_def dict_of_items_def
      counter_key_def dict_get_def)

theorem round_trip_without_separator_witness:
  "wf_dicts liked_store \<and> pipe_safe_keys liked_store
   \<and> load ''bandit.json'' (save liked_store ''bandit.json'' (\<lambda>path. None)) = Inr liked_store"
proof -
  have counters: "likes liked_store = [((''u1'', ''Idli''), 1)]" "dislikes liked_store = []"
    by (simp_all add: liked_store_def update_counters count_feedback_def init_bandit_def
        plain_profile_def idli_def dict_get_def)
  have "map fst (state liked_store) = [''u1'']
      \<and> map (\<lambda>ua. map fst (snd ua)) (state liked_store) = [[''Idli'']]"
    by (simp add: liked_store_def bandit_eval plain_profile_def plain_targets_def idli_def)
  then have wf: "wf_dicts liked_store"
    by (auto simp: wf_dicts_def counters list_all_iff)
  have safe: "pipe_safe_keys liked_store"
    by (simp add: pipe_safe_keys_def counters)
  show ?thesis
    using wf safe round_trip_without_separator [OF wf safe] by simp
qed

end
